theory Spec2Isabelle
  imports Main "HOL-Library.Word"
begin

section \<open>Strings of the login route\<close>

text \<open>
  The route is TypeScript: a string is a sequence of UTF-16 code units. The regular
  expression of the action reads code units, and four of them are line terminators that
  the dot of a regular expression refuses, two of which lie beyond 8 bits. Strings are
  therefore lists of 16-bit words; \<open>js\<close> turns an ASCII literal of the source into one.
\<close>

type_synonym code_unit = "16 word"
type_synonym js_string = "code_unit list"

definition js :: "string \<Rightarrow> js_string" where
  "js s = map of_char s"

definition at_sign :: code_unit where
  "at_sign = 0x40"

definition is_line_terminator :: "code_unit \<Rightarrow> bool" where
  "is_line_terminator c = (c = 0x0A \<or> c = 0x0D \<or> c = 0x2028 \<or> c = 0x2029)"

text \<open>The dot of a JavaScript regular expression without the \<open>s\<close> flag.\<close>

definition dot :: "code_unit \<Rightarrow> bool" where
  "dot c = (\<not> is_line_terminator c)"

text \<open>
  \<^verbatim>\<open>emailAddress.match(/.+@.+/)\<close> is not anchored: it succeeds when some substring is one or
  more dot characters, an at sign, and one or more dot characters. Such a substring
  exists exactly when some at sign has a dot character right before it and one right
  after it, which is what the scan below looks for, position by position
  (\<open>matches_email_regex_iff\<close> relates it to the substring reading).
\<close>

fun matches_email_regex :: "js_string \<Rightarrow> bool" where
  "matches_email_regex (a # c # b # rest) =
     ((dot a \<and> c = at_sign \<and> dot b) \<or> matches_email_regex (c # b # rest))"
| "matches_email_regex _ = False"

text \<open>
  The spec's words for the same check: the string contains an at sign with non-empty
  text on both sides.
\<close>

fun at_with_text_on_both_sides :: "js_string \<Rightarrow> bool" where
  "at_with_text_on_both_sides (a # c # b # rest) =
     (c = at_sign \<or> at_with_text_on_both_sides (c # b # rest))"
| "at_with_text_on_both_sides _ = False"

section \<open>The login session\<close>

text \<open>
  Modelled from the spec: the session object of \<^verbatim>\<open>#app/utils/login.server.ts\<close>
  (\<^verbatim>\<open>getLoginInfoSession\<close> and the methods of what it returns), which is not among the
  sources. The spec gives it three optional string fields, the mutators \<open>setEmail\<close>,
  \<open>flashError\<close> and \<open>setMagicLink\<close>, and a serialisation into a \<^verbatim>\<open>Set-Cookie\<close> header
  on every response of the route. When a flashed value is cleared is left to the
  session store and is not modelled.
\<close>

record login_session =
  email :: "js_string option"
  error :: "js_string option"
  magicLink :: "js_string option"

definition empty_session :: login_session where
  "empty_session = \<lparr>email = None, error = None, magicLink = None\<rparr>"

definition setEmail :: "js_string \<Rightarrow> login_session \<Rightarrow> login_session" where
  "setEmail e s = s\<lparr>email := Some e\<rparr>"

definition flashError :: "js_string \<Rightarrow> login_session \<Rightarrow> login_session" where
  "flashError e s = s\<lparr>error := Some e\<rparr>"

definition setMagicLink :: "js_string \<Rightarrow> login_session \<Rightarrow> login_session" where
  "setMagicLink l s = s\<lparr>magicLink := Some l\<rparr>"

definition getEmail :: "login_session \<Rightarrow> js_string option" where
  "getEmail s = email s"

definition getError :: "login_session \<Rightarrow> js_string option" where
  "getError s = error s"

datatype header_value = Text string | SessionCookie login_session

type_synonym headers = "(string \<times> header_value) list"

text \<open>
  Modelled from the spec: \<open>getHeaders\<close> of the same absent session object. It appends
  the \<^verbatim>\<open>Set-Cookie\<close> header holding the session as it is at the moment of the call to the
  headers it is given (a fresh \<^verbatim>\<open>Headers\<close> object when it is given none).
\<close>

definition getHeaders :: "login_session \<Rightarrow> headers \<Rightarrow> headers" where
  "getHeaders s hs = hs @ [(''Set-Cookie'', SessionCookie s)]"

section \<open>Requests, responses and collaborators\<close>

text \<open>A form field holds a string or an uploaded file (\<^verbatim>\<open>FormDataEntryValue\<close>).\<close>

datatype form_value = FormString js_string | FormFile

type_synonym form_data = "(js_string \<times> form_value) list"

text \<open>
  \<open>cookie\<close> is the login session decoded from the request's \<^verbatim>\<open>Cookie\<close> header, if the
  request carries one.
\<close>

record request =
  formData :: form_data
  cookie :: "login_session option"

text \<open>\<^verbatim>\<open>formData.get(name)\<close>: the first value of that name, or \<^verbatim>\<open>null\<close>.\<close>

definition form_get :: "form_data \<Rightarrow> js_string \<Rightarrow> form_value option" where
  "form_get fd name = map_of fd name"

text \<open>
  Modelled from the spec: \<^verbatim>\<open>getLoginInfoSession(request)\<close> of the absent
  \<^verbatim>\<open>login.server.ts\<close>, which decodes the cookie into the session object.
\<close>

definition getLoginInfoSession :: "request \<Rightarrow> login_session" where
  "getLoginInfoSession req = (case cookie req of None \<Rightarrow> empty_session | Some s \<Rightarrow> s)"

text \<open>
  \<^verbatim>\<open>Boolean(v)\<close> for a form value or \<^verbatim>\<open>null\<close>: only \<^verbatim>\<open>null\<close> and the empty string are
  falsy.
\<close>

fun truthy :: "form_value option \<Rightarrow> bool" where
  "truthy None = False"
| "truthy (Some (FormString s)) = (s \<noteq> [])"
| "truthy (Some FormFile) = True"

record response =
  status :: nat
  location :: js_string
  response_headers :: headers

text \<open>
  \<^verbatim>\<open>redirect(url, init)\<close> of the framework: the status of \<open>init\<close> when it has one, 302
  otherwise, and the \<^verbatim>\<open>Location\<close> of the redirect.
\<close>

definition redirect :: "js_string \<Rightarrow> nat option \<Rightarrow> headers \<Rightarrow> response" where
  "redirect url st hs =
     \<lparr>status = (case st of None \<Rightarrow> 302 | Some n \<Rightarrow> n), location = url, response_headers = hs\<rparr>"

text \<open>
  \<^verbatim>\<open>verifyEmailAddress\<close> returns \<^verbatim>\<open>{status: true}\<close> or
  \<^verbatim>\<open>{status: false, error: {message}}\<close>.
\<close>

datatype verifier_result = VerifierOk | VerifierError js_string

text \<open>What \<open>isEmailVerified\<close> returns.\<close>

datatype verified_status = Verified | NotVerified js_string

text \<open>
  The collaborators the route imports, none of which is among the sources: they are
  parameters of the model. Each either throws a value of type \<open>'e\<close> (\<open>Inl\<close>) or
  returns. The database row is read for its \<^verbatim>\<open>id\<close> only and the mailing-list subscriber
  for its truthiness only.
\<close>

record 'e world =
  verifyEmailAddress :: "js_string \<Rightarrow> 'e + verifier_result"
  findUniqueUser :: "js_string \<Rightarrow> 'e + nat option"
  getConvertKitSubscriber :: "js_string \<Rightarrow> 'e + nat option"
  getDomainUrl :: "request \<Rightarrow> 'e + js_string"
  sendToken :: "js_string \<Rightarrow> js_string \<Rightarrow> 'e + js_string"
  getErrorMessage :: "'e \<Rightarrow> js_string"
  getUser :: "request \<Rightarrow> 'e + nat option"

text \<open>The calls made to the collaborators that do input and output, in order.\<close>

datatype call =
    CallVerifyEmailAddress js_string
  | CallFindUniqueUser js_string
  | CallGetConvertKitSubscriber js_string
  | CallSendToken js_string js_string

text \<open>What the route writes to the console.\<close>

datatype 'e log_entry =
    ConsoleInfo js_string "js_string \<rightharpoonup> form_value"
  | ConsoleError js_string 'e

text \<open>\<^verbatim>\<open>Object.fromEntries(formData.entries())\<close>: the last entry of a name wins.\<close>

definition fromEntries :: "form_data \<Rightarrow> (js_string \<rightharpoonup> form_value)" where
  "fromEntries fd = map_of (rev fd)"

section \<open>isEmailVerified\<close>

definition isEmailVerified :: "'e world \<Rightarrow> js_string \<Rightarrow> ('e + verified_status) \<times> call list" where
  "isEmailVerified w emailAddress =
     (case verifyEmailAddress w emailAddress of
        Inl e \<Rightarrow> (Inl e, [CallVerifyEmailAddress emailAddress])
      | Inr VerifierOk \<Rightarrow> (Inr Verified, [CallVerifyEmailAddress emailAddress])
      | Inr (VerifierError message) \<Rightarrow>
          (case findUniqueUser w emailAddress of
             Inl e \<Rightarrow>
               (Inl e, [CallVerifyEmailAddress emailAddress, CallFindUniqueUser emailAddress])
           | Inr (Some user) \<Rightarrow>
               (Inr Verified,
                [CallVerifyEmailAddress emailAddress, CallFindUniqueUser emailAddress])
           | Inr None \<Rightarrow>
               (case getConvertKitSubscriber w emailAddress of
                  Inl e \<Rightarrow>
                    (Inl e,
                     [CallVerifyEmailAddress emailAddress, CallFindUniqueUser emailAddress,
                      CallGetConvertKitSubscriber emailAddress])
                | Inr (Some subscriber) \<Rightarrow>
                    (Inr Verified,
                     [CallVerifyEmailAddress emailAddress, CallFindUniqueUser emailAddress,
                      CallGetConvertKitSubscriber emailAddress])
                | Inr None \<Rightarrow>
                    (Inr (NotVerified message),
                     [CallVerifyEmailAddress emailAddress, CallFindUniqueUser emailAddress,
                      CallGetConvertKitSubscriber emailAddress]))))"

section \<open>The action\<close>

text \<open>
  \<^verbatim>\<open>invariant(cond, message)\<close> throws when the condition is false; nothing in the action
  catches it.
\<close>

datatype invariant_error = InvariantFailed js_string

text \<open>
  What a run of the action that returns leaves behind: the response, the session object
  as it is at the end, the collaborator calls made and the console output.
\<close>

record 'e action_result =
  resp :: response
  session :: login_session
  calls :: "call list"
  logs :: "'e log_entry list"

text \<open>
  The second \<^verbatim>\<open>try\<close> block of the action (lines 118 to 131), reached when verification
  passed or threw. \<open>cs\<close> and \<open>ls\<close> are the calls and the console output so far.
\<close>

definition action_send ::
  "'e world \<Rightarrow> request \<Rightarrow> js_string \<Rightarrow> login_session \<Rightarrow> call list \<Rightarrow> 'e log_entry list
     \<Rightarrow> 'e action_result" where
  "action_send w req emailAddress loginSession cs ls =
     (case getDomainUrl w req of
        Inl e \<Rightarrow>
          (let loginSession = flashError (getErrorMessage w e) loginSession
           in \<lparr>resp = redirect (js ''/login'') (Some 400) (getHeaders loginSession []),
               session = loginSession, calls = cs, logs = ls\<rparr>)
      | Inr domainUrl \<Rightarrow>
          (case sendToken w emailAddress domainUrl of
             Inl e \<Rightarrow>
               (let loginSession = flashError (getErrorMessage w e) loginSession
                in \<lparr>resp = redirect (js ''/login'') (Some 400) (getHeaders loginSession []),
                    session = loginSession,
                    calls = cs @ [CallSendToken emailAddress domainUrl], logs = ls\<rparr>)
           | Inr link \<Rightarrow>
               (let loginSession = setMagicLink link loginSession
                in \<lparr>resp = redirect (js ''/login'') None (getHeaders loginSession []),
                    session = loginSession,
                    calls = cs @ [CallSendToken emailAddress domainUrl], logs = ls\<rparr>)))"

text \<open>The message flashed when verification refuses the address (line 105).\<close>

definition errorMessage :: "js_string \<Rightarrow> js_string" where
  \<open>errorMessage message =
     js ''I tried to verify that email and got this error message: "'' @ message @
     js ''". If you think this is wrong, sign up for Kent's mailing list first (using the form on the bottom of the page) and once that's confirmed you'll be able to sign up.''\<close>

definition action :: "'e world \<Rightarrow> request \<Rightarrow> invariant_error + 'e action_result" where
  "action w req =
     (let loginSession = getLoginInfoSession req
      in case form_get (formData req) (js ''email'') of
           None \<Rightarrow> Inl (InvariantFailed (js ''Form submitted incorrectly''))
         | Some FormFile \<Rightarrow> Inl (InvariantFailed (js ''Form submitted incorrectly''))
         | Some (FormString emailAddress) \<Rightarrow>
             (let loginSession =
                    (if emailAddress \<noteq> [] then setEmail emailAddress loginSession
                     else loginSession)
              in if \<not> matches_email_regex emailAddress then
                   (let loginSession = flashError (js ''A valid email is required'') loginSession
                    in Inr \<lparr>resp = redirect (js ''/login'') (Some 400) (getHeaders loginSession []),
                            session = loginSession, calls = [], logs = []\<rparr>)
                 else if truthy (form_get (formData req) (js ''password'')) then
                   Inr \<lparr>resp = redirect (js ''/login'') None (getHeaders loginSession []),
                        session = loginSession, calls = [],
                        logs = [ConsoleInfo (js ''FAILED HONEYPOT ON LOGIN'')
                                  (fromEntries (formData req))]\<rparr>
                 else
                   (case isEmailVerified w emailAddress of
                      (Inr (NotVerified message), cs) \<Rightarrow>
                        (let loginSession = flashError (errorMessage message) loginSession
                         in Inr \<lparr>resp = redirect (js ''/login'') (Some 400)
                                         (getHeaders loginSession []),
                                 session = loginSession, calls = cs, logs = []\<rparr>)
                    | (Inr Verified, cs) \<Rightarrow>
                        Inr (action_send w req emailAddress loginSession cs [])
                    | (Inl e, cs) \<Rightarrow>
                        Inr (action_send w req emailAddress loginSession cs
                               [ConsoleError
                                  (js ''There was an error verifying an email address:'') e]))))"

text \<open>
  \<open>action\<close> above is the handler from line 76 on, run on a request whose form line 75
  has read. Line 75 itself, \<^verbatim>\<open>await request.formData()\<close>, stands before both \<^verbatim>\<open>try\<close>
  blocks: it returns the form when the body of the POST is form-encoded and throws a
  \<^verbatim>\<open>TypeError\<close> when it is anything else. \<open>action_handler\<close> is the whole handler, on the
  POST as it arrives.
\<close>

datatype body = FormBody form_data | OtherBody

record post =
  body :: body
  cookie_header :: "login_session option"

text \<open>What leaves the handler other than a response.\<close>

datatype handler_error = FormDataTypeError | InvariantThrown invariant_error

definition action_handler :: "'e world \<Rightarrow> post \<Rightarrow> handler_error + 'e action_result" where
  "action_handler w p =
     (case body p of
        OtherBody \<Rightarrow> Inl FormDataTypeError
      | FormBody fd \<Rightarrow>
          (case action w \<lparr>formData = fd, cookie = cookie_header p\<rparr> of
             Inl err \<Rightarrow> Inl (InvariantThrown err)
           | Inr r \<Rightarrow> Inr r))"

section \<open>The loader\<close>

record loader_data =
  data_email :: "js_string option"
  data_error :: "js_string option"

datatype loader_response =
    LoaderRedirect js_string
  | LoaderJson loader_data headers

text \<open>
  The loader lets what \<^verbatim>\<open>getUser\<close> throws escape (\<open>Inl\<close>). It builds the headers
  before it reads the session's fields.
\<close>

definition loader :: "'e world \<Rightarrow> request \<Rightarrow> 'e + loader_response" where
  "loader w req =
     (case getUser w req of
        Inl e \<Rightarrow> Inl e
      | Inr (Some user) \<Rightarrow> Inr (LoaderRedirect (js ''/me''))
      | Inr None \<Rightarrow>
          (let loginSession = getLoginInfoSession req;
               headers = getHeaders loginSession
                           [(''Cache-Control'', Text ''private, max-age=3600''),
                            (''Vary'', Text ''Cookie'')]
           in Inr (LoaderJson
                     \<lparr>data_email = getEmail loginSession, data_error = getError loginSession\<rparr>
                     headers)))"

section \<open>The browser between two requests\<close>

text \<open>The session a response hands to the browser in its \<^verbatim>\<open>Set-Cookie\<close> header.\<close>

definition set_cookie :: "response \<Rightarrow> login_session option" where
  "set_cookie r =
     (case map_of (response_headers r) ''Set-Cookie'' of
        Some (SessionCookie s) \<Rightarrow> Some s
      | Some (Text t) \<Rightarrow> None
      | None \<Rightarrow> None)"

text \<open>
  The request a browser makes when it follows the redirect of a response to \<open>req\<close>: a
  \<^verbatim>\<open>GET\<close> without a form, carrying the cookie it was just given (the one it had, when it
  was given none).
\<close>

definition follow_redirect :: "request \<Rightarrow> response \<Rightarrow> request" where
  "follow_redirect req r =
     \<lparr>formData = [],
      cookie = (case set_cookie r of None \<Rightarrow> cookie req | Some s \<Rightarrow> Some s)\<rparr>"

section \<open>A concrete world\<close>

text \<open>
  Collaborators for the examples: the verifier accepts every address, the database and
  the mailing list know nobody, the token is sent, thrown values are their own message,
  and nobody is signed in.
\<close>

definition example_world :: "string world" where
  "example_world =
     \<lparr>verifyEmailAddress = (\<lambda>emailAddress. Inr VerifierOk),
      findUniqueUser = (\<lambda>emailAddress. Inr None),
      getConvertKitSubscriber = (\<lambda>emailAddress. Inr None),
      getDomainUrl = (\<lambda>req. Inr (js ''https://example.com'')),
      sendToken = (\<lambda>emailAddress domainUrl. Inr (domainUrl @ js ''/magic?token'')),
      getErrorMessage = js,
      getUser = (\<lambda>req. Inr None)\<rparr>"

text \<open>The same world with a verifier that throws.\<close>

definition failing_verifier_world :: "string world" where
  "failing_verifier_world =
     example_world\<lparr>verifyEmailAddress := (\<lambda>emailAddress. Inl ''verifier unreachable'')\<rparr>"

text \<open>The same world with a verifier that refuses every address.\<close>

definition rejecting_world :: "string world" where
  "rejecting_world =
     example_world\<lparr>verifyEmailAddress :=
       (\<lambda>emailAddress. Inr (VerifierError (js ''Mailbox does not exist'')))\<rparr>"

text \<open>The same world with a token sender that throws.\<close>

definition failing_sender_world :: "string world" where
  "failing_sender_world =
     example_world\<lparr>sendToken := (\<lambda>emailAddress domainUrl. Inl ''mail server down'')\<rparr>"

text \<open>The same world with a user signed in.\<close>

definition signed_in_world :: "string world" where
  "signed_in_world = example_world\<lparr>getUser := (\<lambda>req. Inr (Some 7))\<rparr>"

text \<open>
  What the login form of the page posts: its \<^verbatim>\<open>email\<close> input and its hidden
  \<^verbatim>\<open>password\<close> input, from a browser that has no login cookie yet.
\<close>

definition post_login :: "js_string \<Rightarrow> js_string \<Rightarrow> request" where
  "post_login emailAddress password =
     \<lparr>formData = [(js ''email'', FormString emailAddress), (js ''password'', FormString password)],
      cookie = None\<rparr>"

section \<open>The format check\<close>

text \<open>
  The scan agrees with the substring reading of the regular expression, and the spec's
  check with its own words. Whatever the regular expression accepts has an at sign with
  text on both sides; the converse fails on line terminators.
\<close>

lemma matches_email_regex_cons: "matches_email_regex s \<Longrightarrow> matches_email_regex (h # s)"
  by (cases s rule: matches_email_regex.cases) auto

lemma matches_email_regex_middle:
  "dot p \<Longrightarrow> dot q \<Longrightarrow> matches_email_regex (u @ p # at_sign # q # v)"
  by (induction u) (auto intro: matches_email_regex_cons)

lemma matches_email_regex_split:
  "matches_email_regex s \<Longrightarrow> \<exists>u p q v. s = u @ p # at_sign # q # v \<and> dot p \<and> dot q"
proof (induction s rule: matches_email_regex.induct)
  case (1 a c b rest)
  show ?case
  proof (cases "dot a \<and> c = at_sign \<and> dot b")
    case True
    then have "a # c # b # rest = [] @ a # at_sign # b # rest \<and> dot a \<and> dot b" by simp
    then show ?thesis by blast
  next
    case False
    with 1 obtain u p q v where "c # b # rest = u @ p # at_sign # q # v" "dot p" "dot q"
      by auto
    then have "a # c # b # rest = (a # u) @ p # at_sign # q # v \<and> dot p \<and> dot q" by simp
    then show ?thesis by blast
  qed
qed simp_all

lemma matches_email_regex_iff:
  "matches_email_regex s \<longleftrightarrow>
     (\<exists>pre x y post. s = pre @ x @ at_sign # y @ post \<and> x \<noteq> [] \<and> y \<noteq> [] \<and>
        list_all dot x \<and> list_all dot y)"
proof
  assume "matches_email_regex s"
  then obtain u p q v where "s = u @ p # at_sign # q # v" "dot p" "dot q"
    using matches_email_regex_split by blast
  then have "s = u @ [p] @ at_sign # [q] @ v \<and> [p] \<noteq> [] \<and> [q] \<noteq> [] \<and>
      list_all dot [p] \<and> list_all dot [q]" by simp
  then show "\<exists>pre x y post. s = pre @ x @ at_sign # y @ post \<and> x \<noteq> [] \<and> y \<noteq> [] \<and>
        list_all dot x \<and> list_all dot y" by blast
next
  assume "\<exists>pre x y post. s = pre @ x @ at_sign # y @ post \<and> x \<noteq> [] \<and> y \<noteq> [] \<and>
        list_all dot x \<and> list_all dot y"
  then obtain pre x y post where s: "s = pre @ x @ at_sign # y @ post" and "x \<noteq> []" "y \<noteq> []"
    and dx: "list_all dot x" and dy: "list_all dot y" by blast
  then obtain x' p q y' where x: "x = x' @ [p]" and y: "y = q # y'"
    by (metis rev_exhaust list.exhaust)
  from dx dy x y have "dot p" "dot q" by simp_all
  then have "matches_email_regex ((pre @ x') @ p # at_sign # q # (y' @ post))"
    by (rule matches_email_regex_middle)
  with s x y show "matches_email_regex s" by simp
qed

lemma at_with_text_cons: "at_with_text_on_both_sides s \<Longrightarrow> at_with_text_on_both_sides (h # s)"
  by (cases s rule: at_with_text_on_both_sides.cases) auto

lemma at_with_text_on_both_sides_iff:
  "at_with_text_on_both_sides s \<longleftrightarrow> (\<exists>a b. a \<noteq> [] \<and> b \<noteq> [] \<and> s = a @ at_sign # b)"
proof
  show "at_with_text_on_both_sides s \<Longrightarrow> \<exists>a b. a \<noteq> [] \<and> b \<noteq> [] \<and> s = a @ at_sign # b"
  proof (induction s rule: at_with_text_on_both_sides.induct)
    case (1 a c b rest)
    show ?case
    proof (cases "c = at_sign")
      case True
      then have "[a] \<noteq> [] \<and> b # rest \<noteq> [] \<and> a # c # b # rest = [a] @ at_sign # (b # rest)"
        by simp
      then show ?thesis by blast
    next
      case False
      with 1 obtain x y where "x \<noteq> []" "y \<noteq> []" "c # b # rest = x @ at_sign # y" by auto
      then have "a # x \<noteq> [] \<and> y \<noteq> [] \<and> a # c # b # rest = (a # x) @ at_sign # y" by simp
      then show ?thesis by blast
    qed
  qed simp_all
next
  assume "\<exists>a b. a \<noteq> [] \<and> b \<noteq> [] \<and> s = a @ at_sign # b"
  then obtain a b where "a \<noteq> []" "b \<noteq> []" and s: "s = a @ at_sign # b" by blast
  then obtain a' p q b' where "a = a' @ [p]" "b = q # b'"
    by (metis rev_exhaust list.exhaust)
  with s have s': "s = a' @ p # at_sign # q # b'" by simp
  have "at_with_text_on_both_sides (a' @ p # at_sign # q # b')"
    by (induction a') (auto intro: at_with_text_cons)
  with s' show "at_with_text_on_both_sides s" by simp
qed

lemma matches_email_regex_at_with_text:
  "matches_email_regex s \<Longrightarrow> at_with_text_on_both_sides s"
  by (induction s rule: matches_email_regex.induct) auto

lemma line_terminators_not_matched:
  "at_with_text_on_both_sides [0x0A, at_sign, 0x0A] \<and>
   \<not> matches_email_regex [0x0A, at_sign, 0x0A]"
  by (simp add: dot_def is_line_terminator_def)

section \<open>Shared facts\<close>

lemmas session_ops = Let_def setEmail_def flashError_def setMagicLink_def getHeaders_def redirect_def

lemmas example_eval = post_login_def form_get_def js_def at_sign_def dot_def
  is_line_terminator_def example_world_def

text \<open>
  However the second \<^verbatim>\<open>try\<close> block ends, it answers with a redirect to \<^verbatim>\<open>/login\<close> whose
  only header is the cookie of the session as it then is, and it leaves the session's
  email alone.
\<close>

lemma action_send_shape:
  "location (resp (action_send w req e s cs ls)) = js ''/login'' \<and>
   response_headers (resp (action_send w req e s cs ls)) =
     [(''Set-Cookie'', SessionCookie (session (action_send w req e s cs ls)))] \<and>
   (status (resp (action_send w req e s cs ls)) = 302 \<or>
    status (resp (action_send w req e s cs ls)) = 400) \<and>
   email (session (action_send w req e s cs ls)) = email s"
  by (simp add: action_send_def session_ops split: sum.split)

section \<open>The verification chain\<close>

text \<open>
  C2. For every email address, \<open>isEmailVerified\<close> first calls the deliverability
  verifier. It goes on to the database lookup exactly when the verifier returned
  not-verified, and from there to the mailing-list lookup exactly when the database
  lookup returned no user: the calls made are always an initial part of the sequence
  verifier, database, mailing list, so that no later step runs once an earlier one has
  succeeded. The result is verified exactly when the verifier verified, or the database
  lookup was made and found a user, or the mailing-list lookup was made and found a
  subscriber.
\<close>

theorem isEmailVerified_chain:
  "case isEmailVerified w e of
     (res, cs) \<Rightarrow>
       cs = take (length cs)
              [CallVerifyEmailAddress e, CallFindUniqueUser e, CallGetConvertKitSubscriber e] \<and>
       CallVerifyEmailAddress e \<in> set cs \<and>
       (CallFindUniqueUser e \<in> set cs \<longleftrightarrow> (\<exists>m. verifyEmailAddress w e = Inr (VerifierError m))) \<and>
       (CallGetConvertKitSubscriber e \<in> set cs \<longleftrightarrow>
          (\<exists>m. verifyEmailAddress w e = Inr (VerifierError m)) \<and> findUniqueUser w e = Inr None) \<and>
       (res = Inr Verified \<longleftrightarrow>
          verifyEmailAddress w e = Inr VerifierOk \<or>
          (CallFindUniqueUser e \<in> set cs \<and> (\<exists>u. findUniqueUser w e = Inr (Some u))) \<or>
          (CallGetConvertKitSubscriber e \<in> set cs \<and>
             (\<exists>s. getConvertKitSubscriber w e = Inr (Some s))))"
  by (simp add: isEmailVerified_def split: sum.split verifier_result.split option.split)


section \<open>The paths of the action\<close>

text \<open>
  Throughout, decoding the session and serialising it are taken to return, as the spec
  describes them; what the collaborators of the two \<^verbatim>\<open>try\<close> blocks throw is modelled,
  and so is a body that line 75 cannot read as a form (\<open>action_handler\<close>). The statements
  about \<open>action\<close> fix a field of the form, and so speak of requests whose form was read.
\<close>

text \<open>
  C1. For every POST whose email passes the format check and whose honeypot is empty: if
  the call to the verifier throws, the action goes on to the token step with the session
  as it was after \<open>setEmail\<close>, and its response, its session and its collaborator calls
  are those of the same request in a world where the verifier answers verified. The
  status is 400 only when the token step itself throws.
\<close>

theorem verifier_throws_fail_open:
  assumes "form_get (formData req) (js ''email'') = Some (FormString emailAddress)"
    and "matches_email_regex emailAddress"
    and "\<not> truthy (form_get (formData req) (js ''password''))"
    and "verifyEmailAddress w emailAddress = Inl e"
  shows "\<exists>r r'. action w req = Inr r \<and>
           action (w\<lparr>verifyEmailAddress := \<lambda>a. Inr VerifierOk\<rparr>) req = Inr r' \<and>
           resp r = resp r' \<and> session r = session r' \<and> calls r = calls r' \<and>
           r = action_send w req emailAddress (setEmail emailAddress (getLoginInfoSession req))
                 [CallVerifyEmailAddress emailAddress]
                 [ConsoleError (js ''There was an error verifying an email address:'') e] \<and>
           (status (resp r) = 400 \<longleftrightarrow>
              isl (getDomainUrl w req) \<or>
              (\<exists>domainUrl. getDomainUrl w req = Inr domainUrl \<and>
                 isl (sendToken w emailAddress domainUrl)))"
proof -
  from assms(2) have ne: "emailAddress \<noteq> []" by auto
  let ?w = "w\<lparr>verifyEmailAddress := \<lambda>a. Inr VerifierOk\<rparr>"
  have 1: "isEmailVerified w emailAddress = (Inl e, [CallVerifyEmailAddress emailAddress])"
    using assms(4) by (simp add: isEmailVerified_def)
  have 2: "isEmailVerified ?w emailAddress = (Inr Verified, [CallVerifyEmailAddress emailAddress])"
    by (simp add: isEmailVerified_def)
  have a: "action w req = Inr (action_send w req emailAddress (setEmail emailAddress (getLoginInfoSession req))
                 [CallVerifyEmailAddress emailAddress]
                 [ConsoleError (js ''There was an error verifying an email address:'') e])"
    using assms(1-3) ne 1 by (simp add: action_def)
  have b: "action ?w req = Inr (action_send ?w req emailAddress (setEmail emailAddress (getLoginInfoSession req))
                 [CallVerifyEmailAddress emailAddress] [])"
    using assms(1-3) ne 2 by (simp add: action_def)
  show ?thesis
    unfolding a b by (simp add: action_send_def session_ops split: sum.split)
qed

text \<open>
  An instance of C1: the verifier is unreachable, the address is \<^verbatim>\<open>a@b.com\<close>, and the
  response is not a 400.
\<close>

theorem verifier_throws_fail_open_witness:
  "form_get (formData (post_login (js ''a@b.com'') [])) (js ''email'') =
     Some (FormString (js ''a@b.com'')) \<and>
   matches_email_regex (js ''a@b.com'') \<and>
   \<not> truthy (form_get (formData (post_login (js ''a@b.com'') [])) (js ''password'')) \<and>
   verifyEmailAddress failing_verifier_world (js ''a@b.com'') = Inl ''verifier unreachable'' \<and>
   (\<exists>r. action failing_verifier_world (post_login (js ''a@b.com'') []) = Inr r \<and>
        status (resp r) \<noteq> 400)"
proof -
  have h1: "form_get (formData (post_login (js ''a@b.com'') [])) (js ''email'') =
      Some (FormString (js ''a@b.com''))"
    by (simp add: post_login_def form_get_def)
  have h2: "matches_email_regex (js ''a@b.com'')"
    by (simp add: example_eval)
  have h3: "\<not> truthy (form_get (formData (post_login (js ''a@b.com'') [])) (js ''password''))"
    by (simp add: example_eval)
  have h4: "verifyEmailAddress failing_verifier_world (js ''a@b.com'') = Inl ''verifier unreachable''"
    by (simp add: failing_verifier_world_def)
  have ok: "\<not> isl (getDomainUrl failing_verifier_world (post_login (js ''a@b.com'') []))"
    "\<And>d. \<not> isl (sendToken failing_verifier_world (js ''a@b.com'') d)"
    by (simp_all add: failing_verifier_world_def example_world_def)
  from verifier_throws_fail_open [OF h1 h2 h3 h4] ok
  have "\<exists>r. action failing_verifier_world (post_login (js ''a@b.com'') []) = Inr r \<and>
        status (resp r) \<noteq> 400"
    by blast
  with h1 h2 h3 h4 show ?thesis by blast
qed

text \<open>
  C3. For every POST whose email field is a string without an at sign that has text on
  both sides, the action answers with a redirect to \<^verbatim>\<open>/login\<close> of status 400, the error
  \<^verbatim>\<open>A valid email is required\<close> is flashed into the session the response carries, and no
  collaborator is called: neither the verifier, the database, the mailing list nor the
  token sender.
\<close>

theorem malformed_email_rejected:
  assumes "form_get (formData req) (js ''email'') = Some (FormString emailAddress)"
    and "\<not> at_with_text_on_both_sides emailAddress"
  shows "\<exists>r. action w req = Inr r \<and> status (resp r) = 400 \<and> location (resp r) = js ''/login'' \<and>
           error (session r) = Some (js ''A valid email is required'') \<and> calls r = [] \<and>
           response_headers (resp r) = [(''Set-Cookie'', SessionCookie (session r))]"
proof -
  from assms(2) have "\<not> matches_email_regex emailAddress"
    using matches_email_regex_at_with_text by blast
  with assms(1) show ?thesis
    by (simp add: action_def session_ops)
qed

text \<open>An instance of C3, the spec's example: the email \<^verbatim>\<open>not-an-email\<close>.\<close>

theorem malformed_email_rejected_witness:
  "form_get (formData (post_login (js ''not-an-email'') [])) (js ''email'') =
     Some (FormString (js ''not-an-email'')) \<and>
   \<not> at_with_text_on_both_sides (js ''not-an-email'') \<and>
   (\<exists>r. action example_world (post_login (js ''not-an-email'') []) = Inr r \<and>
        status (resp r) = 400 \<and> location (resp r) = js ''/login'' \<and>
        error (session r) = Some (js ''A valid email is required'') \<and> calls r = [] \<and>
        response_headers (resp r) = [(''Set-Cookie'', SessionCookie (session r))])"
proof -
  have h1: "form_get (formData (post_login (js ''not-an-email'') [])) (js ''email'') =
      Some (FormString (js ''not-an-email''))"
    by (simp add: post_login_def form_get_def)
  have h2: "\<not> at_with_text_on_both_sides (js ''not-an-email'')"
    by (simp add: js_def at_sign_def)
  from h1 h2 malformed_email_rejected [OF h1 h2, of example_world] show ?thesis
    by blast
qed

text \<open>
  C4, as amended. For every submission with a non-empty \<^verbatim>\<open>password\<close> field, a run of the
  action that returns has called no collaborator and has left the session's magic link
  as it was; and when the email field is a string that passes the format check, the
  action returns a redirect to \<^verbatim>\<open>/login\<close> of status 302 with no error flashed. The
  format check comes first: a malformed email gets the 400 and its flashed error even
  when the honeypot is filled.
\<close>

theorem honeypot_silent_redirect:
  assumes "truthy (form_get (formData req) (js ''password''))"
  shows "(\<forall>r. action w req = Inr r \<longrightarrow>
            calls r = [] \<and> magicLink (session r) = magicLink (getLoginInfoSession req)) \<and>
         (\<forall>emailAddress.
            form_get (formData req) (js ''email'') = Some (FormString emailAddress) \<and>
            matches_email_regex emailAddress \<longrightarrow>
            (\<exists>r. action w req = Inr r \<and> status (resp r) = 302 \<and>
                 location (resp r) = js ''/login'' \<and>
                 error (session r) = error (getLoginInfoSession req) \<and>
                 response_headers (resp r) = [(''Set-Cookie'', SessionCookie (session r))]))"
  using assms
  by (auto simp add: action_def session_ops split: option.splits form_value.splits if_splits)

text \<open>An instance of C4 as amended: \<^verbatim>\<open>a@b.com\<close> with the honeypot filled.\<close>

theorem honeypot_silent_redirect_witness:
  "truthy (form_get (formData (post_login (js ''a@b.com'') (js ''hunter2''))) (js ''password'')) \<and>
   (\<exists>r. action example_world (post_login (js ''a@b.com'') (js ''hunter2'')) = Inr r \<and>
        status (resp r) = 302 \<and> location (resp r) = js ''/login'' \<and>
        error (session r) = None \<and> magicLink (session r) = None \<and> calls r = [])"
proof -
  have h: "truthy (form_get (formData (post_login (js ''a@b.com'') (js ''hunter2'')))
      (js ''password''))"
    by (simp add: example_eval)
  have e: "form_get (formData (post_login (js ''a@b.com'') (js ''hunter2''))) (js ''email'') =
      Some (FormString (js ''a@b.com''))"
    by (simp add: post_login_def form_get_def)
  have m: "matches_email_regex (js ''a@b.com'')"
    by (simp add: example_eval)
  have s: "getLoginInfoSession (post_login (js ''a@b.com'') (js ''hunter2'')) = empty_session"
    by (simp add: getLoginInfoSession_def post_login_def)
  from honeypot_silent_redirect [OF h, of example_world] e m s
  have "\<exists>r. action example_world (post_login (js ''a@b.com'') (js ''hunter2'')) = Inr r \<and>
        status (resp r) = 302 \<and> location (resp r) = js ''/login'' \<and>
        error (session r) = None \<and> magicLink (session r) = None \<and> calls r = []"
    by (auto simp add: empty_session_def)
  with h show ?thesis by blast
qed

text \<open>
  C4 as first stated fails: with the honeypot filled and the email \<^verbatim>\<open>not-an-email\<close>, the
  response has status 400 and an error is flashed.
\<close>

theorem honeypot_invalid_email_counterexample:
  "truthy (form_get (formData (post_login (js ''not-an-email'') (js ''x''))) (js ''password'')) \<and>
   action example_world (post_login (js ''not-an-email'') (js ''x'')) =
     Inr \<lparr>resp = \<lparr>status = 400, location = js ''/login'',
                   response_headers =
                     [(''Set-Cookie'',
                       SessionCookie \<lparr>email = Some (js ''not-an-email''),
                                      error = Some (js ''A valid email is required''),
                                      magicLink = None\<rparr>)]\<rparr>,
          session = \<lparr>email = Some (js ''not-an-email''),
                     error = Some (js ''A valid email is required''), magicLink = None\<rparr>,
          calls = [], logs = []\<rparr>"
  by (simp add: action_def session_ops post_login_def form_get_def getLoginInfoSession_def
      empty_session_def js_def at_sign_def)

text \<open>
  C5. For every POST whose email passes the format check and whose honeypot is empty: if
  the verifier answers not-verified with a message, the database has no such user and
  the mailing list no such subscriber, the action answers with a redirect to \<^verbatim>\<open>/login\<close>
  of status 400, and the error flashed into the session is the fixed text of line 105
  with the verifier's message in its middle. The token sender is not called.
\<close>

theorem unverified_email_rejected:
  assumes "form_get (formData req) (js ''email'') = Some (FormString emailAddress)"
    and "matches_email_regex emailAddress"
    and "\<not> truthy (form_get (formData req) (js ''password''))"
    and "verifyEmailAddress w emailAddress = Inr (VerifierError message)"
    and "findUniqueUser w emailAddress = Inr None"
    and "getConvertKitSubscriber w emailAddress = Inr None"
  shows \<open>\<exists>r. action w req = Inr r \<and> status (resp r) = 400 \<and> location (resp r) = js ''/login'' \<and>
           error (session r) =
             Some (js ''I tried to verify that email and got this error message: "'' @ message @
                   js ''". If you think this is wrong, sign up for Kent's mailing list first (using the form on the bottom of the page) and once that's confirmed you'll be able to sign up.'') \<and>
           magicLink (session r) = magicLink (getLoginInfoSession req) \<and>
           calls r =
             [CallVerifyEmailAddress emailAddress, CallFindUniqueUser emailAddress,
              CallGetConvertKitSubscriber emailAddress] \<and>
           response_headers (resp r) = [(''Set-Cookie'', SessionCookie (session r))]\<close>
proof -
  have "isEmailVerified w emailAddress =
      (Inr (NotVerified message),
       [CallVerifyEmailAddress emailAddress, CallFindUniqueUser emailAddress,
        CallGetConvertKitSubscriber emailAddress])"
    using assms(4-6) by (simp add: isEmailVerified_def)
  with assms(1-3) show ?thesis
    by (simp add: action_def session_ops errorMessage_def)
qed

text \<open>An instance of C5: the verifier answers \<^verbatim>\<open>Mailbox does not exist\<close>.\<close>

theorem unverified_email_rejected_witness:
  \<open>form_get (formData (post_login (js ''a@b.com'') [])) (js ''email'') =
     Some (FormString (js ''a@b.com'')) \<and>
   matches_email_regex (js ''a@b.com'') \<and>
   \<not> truthy (form_get (formData (post_login (js ''a@b.com'') [])) (js ''password'')) \<and>
   verifyEmailAddress rejecting_world (js ''a@b.com'') =
     Inr (VerifierError (js ''Mailbox does not exist'')) \<and>
   findUniqueUser rejecting_world (js ''a@b.com'') = Inr None \<and>
   getConvertKitSubscriber rejecting_world (js ''a@b.com'') = Inr None \<and>
   (\<exists>r. action rejecting_world (post_login (js ''a@b.com'') []) = Inr r \<and>
        status (resp r) = 400 \<and>
        error (session r) =
          Some (js ''I tried to verify that email and got this error message: "'' @
                js ''Mailbox does not exist'' @
                js ''". If you think this is wrong, sign up for Kent's mailing list first (using the form on the bottom of the page) and once that's confirmed you'll be able to sign up.''))\<close>
proof -
  have h1: "form_get (formData (post_login (js ''a@b.com'') [])) (js ''email'') =
      Some (FormString (js ''a@b.com''))"
    by (simp add: post_login_def form_get_def)
  have h2: "matches_email_regex (js ''a@b.com'')"
    by (simp add: example_eval)
  have h3: "\<not> truthy (form_get (formData (post_login (js ''a@b.com'') [])) (js ''password''))"
    by (simp add: example_eval)
  have h4: "verifyEmailAddress rejecting_world (js ''a@b.com'') =
     Inr (VerifierError (js ''Mailbox does not exist''))"
    by (simp add: rejecting_world_def)
  have h5: "findUniqueUser rejecting_world (js ''a@b.com'') = Inr None"
    by (simp add: rejecting_world_def example_world_def)
  have h6: "getConvertKitSubscriber rejecting_world (js ''a@b.com'') = Inr None"
    by (simp add: rejecting_world_def example_world_def)
  from h1 h2 h3 h4 h5 h6 unverified_email_rejected [OF h1 h2 h3 h4 h5 h6] show ?thesis
    by blast
qed

text \<open>
  C6. For every POST whose email passes the format check and whose honeypot is empty: if
  verification returns verified and the token sender returns a magic link, that link is
  stored in the session, and the action answers with a redirect to \<^verbatim>\<open>/login\<close> of status
  302 whose header is the cookie of that session. The link stored is the one the sender
  returned, so it is as non-empty as that one.
\<close>

theorem magic_link_stored:
  assumes "form_get (formData req) (js ''email'') = Some (FormString emailAddress)"
    and "matches_email_regex emailAddress"
    and "\<not> truthy (form_get (formData req) (js ''password''))"
    and "fst (isEmailVerified w emailAddress) = Inr Verified"
    and "getDomainUrl w req = Inr domainUrl"
    and "sendToken w emailAddress domainUrl = Inr link"
  shows "\<exists>r. action w req = Inr r \<and> magicLink (session r) = Some link \<and>
           status (resp r) = 302 \<and> location (resp r) = js ''/login'' \<and>
           response_headers (resp r) = [(''Set-Cookie'', SessionCookie (session r))] \<and>
           set_cookie (resp r) = Some (session r) \<and>
           error (session r) = error (getLoginInfoSession req) \<and>
           last (calls r) = CallSendToken emailAddress domainUrl"
proof -
  obtain cs where "isEmailVerified w emailAddress = (Inr Verified, cs)"
    using assms(4) by (cases "isEmailVerified w emailAddress") simp
  with assms(1-3,5,6) show ?thesis
    by (simp add: action_def action_send_def session_ops set_cookie_def)
qed

text \<open>An instance of C6: the example world sends the token for \<^verbatim>\<open>a@b.com\<close>.\<close>

theorem magic_link_stored_witness:
  "form_get (formData (post_login (js ''a@b.com'') [])) (js ''email'') =
     Some (FormString (js ''a@b.com'')) \<and>
   matches_email_regex (js ''a@b.com'') \<and>
   \<not> truthy (form_get (formData (post_login (js ''a@b.com'') [])) (js ''password'')) \<and>
   fst (isEmailVerified example_world (js ''a@b.com'')) = Inr Verified \<and>
   getDomainUrl example_world (post_login (js ''a@b.com'') []) = Inr (js ''https://example.com'') \<and>
   sendToken example_world (js ''a@b.com'') (js ''https://example.com'') =
     Inr (js ''https://example.com/magic?token'') \<and>
   (\<exists>r. action example_world (post_login (js ''a@b.com'') []) = Inr r \<and>
        magicLink (session r) = Some (js ''https://example.com/magic?token'') \<and>
        status (resp r) = 302 \<and> location (resp r) = js ''/login'' \<and>
        set_cookie (resp r) = Some (session r))"
proof -
  have h1: "form_get (formData (post_login (js ''a@b.com'') [])) (js ''email'') =
      Some (FormString (js ''a@b.com''))"
    by (simp add: post_login_def form_get_def)
  have h2: "matches_email_regex (js ''a@b.com'')"
    by (simp add: example_eval)
  have h3: "\<not> truthy (form_get (formData (post_login (js ''a@b.com'') [])) (js ''password''))"
    by (simp add: example_eval)
  have h4: "fst (isEmailVerified example_world (js ''a@b.com'')) = Inr Verified"
    by (simp add: isEmailVerified_def example_world_def)
  have h5: "getDomainUrl example_world (post_login (js ''a@b.com'') []) =
      Inr (js ''https://example.com'')"
    by (simp add: example_world_def)
  have h6: "sendToken example_world (js ''a@b.com'') (js ''https://example.com'') =
     Inr (js ''https://example.com/magic?token'')"
    by (simp add: example_world_def js_def)
  from h1 h2 h3 h4 h5 h6 magic_link_stored [OF h1 h2 h3 h4 h5 h6] show ?thesis
    by blast
qed

text \<open>
  C7, as amended. For every POST in which the \<^verbatim>\<open>email\<close> field is absent from the form,
  the invariant of line 79 throws \<^verbatim>\<open>Form submitted incorrectly\<close> out of the action: no
  redirect is returned and nothing is flashed.
\<close>

theorem missing_email_throws:
  assumes "form_get (formData req) (js ''email'') = None"
  shows "action w req = Inl (InvariantFailed (js ''Form submitted incorrectly''))"
  using assms by (simp add: action_def)

text \<open>An instance of C7 as amended: a form with a \<^verbatim>\<open>password\<close> field only.\<close>

theorem missing_email_throws_witness:
  "form_get (formData \<lparr>formData = [(js ''password'', FormString [])], cookie = None\<rparr>)
     (js ''email'') = None \<and>
   action example_world \<lparr>formData = [(js ''password'', FormString [])], cookie = None\<rparr> =
     Inl (InvariantFailed (js ''Form submitted incorrectly''))"
proof -
  have h: "form_get (formData \<lparr>formData = [(js ''password'', FormString [])], cookie = None\<rparr>)
     (js ''email'') = None"
    by (simp add: form_get_def js_def)
  from h missing_email_throws [OF h, of example_world] show ?thesis by blast
qed

text \<open>
  C7 as first stated fails: on an empty form the action returns no 400 redirect, it
  throws.
\<close>

theorem missing_email_counterexample:
  "form_get (formData \<lparr>formData = [], cookie = None\<rparr>) (js ''email'') = None \<and>
   action example_world \<lparr>formData = [], cookie = None\<rparr> =
     Inl (InvariantFailed (js ''Form submitted incorrectly''))"
  by (simp add: action_def form_get_def)

text \<open>From line 76 on, the handler either returns one redirect or fails the invariant.\<close>

lemma action_redirect_or_invariant:
  "case action w req of
     Inl err \<Rightarrow>
       err = InvariantFailed (js ''Form submitted incorrectly'') \<and>
       (\<forall>s. form_get (formData req) (js ''email'') \<noteq> Some (FormString s))
   | Inr r \<Rightarrow>
       (\<exists>s. form_get (formData req) (js ''email'') = Some (FormString s)) \<and>
       location (resp r) = js ''/login'' \<and>
       (status (resp r) = 302 \<or> status (resp r) = 400) \<and>
       response_headers (resp r) = [(''Set-Cookie'', SessionCookie (session r))]"
  using action_send_shape [of w req]
  by (simp add: action_def session_ops split: option.split form_value.split sum.split
      verified_status.split prod.split)

text \<open>
  C8, as amended. With the session store's calls taken to return, a run of the action
  handler ends in exactly one of three ways. When the body of the POST reads as a form
  and its \<^verbatim>\<open>email\<close> field is a string, the handler returns one redirect to \<^verbatim>\<open>/login\<close>, of
  status 302 or 400, whose header is the cookie of the session as the run leaves it, so
  that no mutation of the session goes unflushed. When the body reads as a form and the
  \<^verbatim>\<open>email\<close> field is absent or is not a string, the invariant of line 79 throws out of the
  handler. When the body does not read as a form, \<^verbatim>\<open>request.formData()\<close> of line 75 throws
  out of the handler.
\<close>

theorem action_redirects_or_throws:
  "case action_handler w p of
     Inl FormDataTypeError \<Rightarrow> body p = OtherBody
   | Inl (InvariantThrown err) \<Rightarrow>
       err = InvariantFailed (js ''Form submitted incorrectly'') \<and>
       (\<exists>fd. body p = FormBody fd \<and>
          (\<forall>s. form_get fd (js ''email'') \<noteq> Some (FormString s)))
   | Inr r \<Rightarrow>
       (\<exists>fd s. body p = FormBody fd \<and> form_get fd (js ''email'') = Some (FormString s)) \<and>
       location (resp r) = js ''/login'' \<and>
       (status (resp r) = 302 \<or> status (resp r) = 400) \<and>
       response_headers (resp r) = [(''Set-Cookie'', SessionCookie (session r))]"
proof (cases "body p")
  case OtherBody
  then show ?thesis by (simp add: action_handler_def)
next
  case (FormBody fd)
  with action_redirect_or_invariant
      [where w = w and req = "\<lparr>formData = fd, cookie = cookie_header p\<rparr>"]
  show ?thesis
    by (simp add: action_handler_def split: sum.splits)
qed

text \<open>
  C8 as first stated fails: a form with a \<^verbatim>\<open>password\<close> field and no \<^verbatim>\<open>email\<close> field
  makes the handler throw.
\<close>

theorem handler_throws_counterexample:
  "action_handler example_world
     \<lparr>body = FormBody [(js ''password'', FormString (js ''hunter2''))], cookie_header = None\<rparr> =
   Inl (InvariantThrown (InvariantFailed (js ''Form submitted incorrectly'')))"
  by (simp add: action_handler_def action_def form_get_def js_def)

text \<open>A body that is not a form leaves the handler at line 75, whatever the world.\<close>

lemma other_body_throws:
  "action_handler w \<lparr>body = OtherBody, cookie_header = c\<rparr> = Inl FormDataTypeError"
  by (simp add: action_handler_def)

text \<open>
  C9. For every POST whose email passes the format check and whose honeypot is empty, and
  whose verification does not refuse the address (so that the token step runs): if
  \<open>getDomainUrl\<close> or \<open>sendToken\<close> throws, the action flashes what \<open>getErrorMessage\<close>
  makes of the thrown value into the session and answers with a redirect to \<^verbatim>\<open>/login\<close>
  of status 400; the session's magic link is left as the request brought it, so a
  session without one still has none.
\<close>

theorem token_failure_rejected:
  assumes "form_get (formData req) (js ''email'') = Some (FormString emailAddress)"
    and "matches_email_regex emailAddress"
    and "\<not> truthy (form_get (formData req) (js ''password''))"
    and "\<forall>message. fst (isEmailVerified w emailAddress) \<noteq> Inr (NotVerified message)"
    and "getDomainUrl w req = Inl e \<or>
         (\<exists>domainUrl. getDomainUrl w req = Inr domainUrl \<and>
            sendToken w emailAddress domainUrl = Inl e)"
  shows "\<exists>r. action w req = Inr r \<and> error (session r) = Some (getErrorMessage w e) \<and>
           status (resp r) = 400 \<and> location (resp r) = js ''/login'' \<and>
           magicLink (session r) = magicLink (getLoginInfoSession req) \<and>
           response_headers (resp r) = [(''Set-Cookie'', SessionCookie (session r))]"
proof -
  obtain res cs where iv: "isEmailVerified w emailAddress = (res, cs)"
    by (cases "isEmailVerified w emailAddress")
  with assms(4) have nr: "\<And>m. res \<noteq> Inr (NotVerified m)" by simp
  have send: "\<And>s ls. let r = action_send w req emailAddress s cs ls in
      error (session r) = Some (getErrorMessage w e) \<and>
           status (resp r) = 400 \<and> location (resp r) = js ''/login'' \<and>
           magicLink (session r) = magicLink s \<and>
           response_headers (resp r) = [(''Set-Cookie'', SessionCookie (session r))]"
    using assms(5) by (auto simp add: action_send_def session_ops)
  show ?thesis
  proof (cases res)
    case (Inl x)
    with assms(1-3) iv send show ?thesis
      by (simp add: action_def Let_def setEmail_def)
  next
    case (Inr v)
    with nr have "v = Verified" by (cases v) auto
    with Inr assms(1-3) iv send show ?thesis
      by (simp add: action_def Let_def setEmail_def)
  qed
qed

text \<open>An instance of C9: the token sender throws \<^verbatim>\<open>mail server down\<close>.\<close>

theorem token_failure_rejected_witness:
  "form_get (formData (post_login (js ''a@b.com'') [])) (js ''email'') =
     Some (FormString (js ''a@b.com'')) \<and>
   matches_email_regex (js ''a@b.com'') \<and>
   \<not> truthy (form_get (formData (post_login (js ''a@b.com'') [])) (js ''password'')) \<and>
   fst (isEmailVerified failing_sender_world (js ''a@b.com'')) = Inr Verified \<and>
   getDomainUrl failing_sender_world (post_login (js ''a@b.com'') []) =
     Inr (js ''https://example.com'') \<and>
   sendToken failing_sender_world (js ''a@b.com'') (js ''https://example.com'') =
     Inl ''mail server down'' \<and>
   (\<exists>r. action failing_sender_world (post_login (js ''a@b.com'') []) = Inr r \<and>
        error (session r) = Some (js ''mail server down'') \<and> status (resp r) = 400 \<and>
        location (resp r) = js ''/login'' \<and> magicLink (session r) = None)"
proof -
  have h1: "form_get (formData (post_login (js ''a@b.com'') [])) (js ''email'') =
      Some (FormString (js ''a@b.com''))"
    by (simp add: post_login_def form_get_def)
  have h2: "matches_email_regex (js ''a@b.com'')"
    by (simp add: example_eval)
  have h3: "\<not> truthy (form_get (formData (post_login (js ''a@b.com'') [])) (js ''password''))"
    by (simp add: example_eval)
  have v: "fst (isEmailVerified failing_sender_world (js ''a@b.com'')) = Inr Verified"
    by (simp add: isEmailVerified_def failing_sender_world_def example_world_def)
  then have h4: "\<forall>message. fst (isEmailVerified failing_sender_world (js ''a@b.com'')) \<noteq>
      Inr (NotVerified message)"
    by simp
  have d: "getDomainUrl failing_sender_world (post_login (js ''a@b.com'') []) =
      Inr (js ''https://example.com'')"
    by (simp add: failing_sender_world_def example_world_def)
  have t: "sendToken failing_sender_world (js ''a@b.com'') (js ''https://example.com'') =
      Inl ''mail server down''"
    by (simp add: failing_sender_world_def)
  from d t have h5: "getDomainUrl failing_sender_world (post_login (js ''a@b.com'') []) =
        Inl ''mail server down'' \<or>
      (\<exists>domainUrl. getDomainUrl failing_sender_world (post_login (js ''a@b.com'') []) =
           Inr domainUrl \<and>
         sendToken failing_sender_world (js ''a@b.com'') domainUrl = Inl ''mail server down'')"
    by simp
  have g: "getErrorMessage failing_sender_world ''mail server down'' = js ''mail server down''"
    by (simp add: failing_sender_world_def example_world_def)
  have s: "magicLink (getLoginInfoSession (post_login (js ''a@b.com'') [])) = None"
    by (simp add: getLoginInfoSession_def post_login_def empty_session_def)
  from token_failure_rejected [OF h1 h2 h3 h4 h5] g s
  have "\<exists>r. action failing_sender_world (post_login (js ''a@b.com'') []) = Inr r \<and>
        error (session r) = Some (js ''mail server down'') \<and> status (resp r) = 400 \<and>
        location (resp r) = js ''/login'' \<and> magicLink (session r) = None"
    by auto
  with h1 h2 h3 v d t show ?thesis by blast
qed

section \<open>The action and the loader\<close>

text \<open>
  C10, as amended. For every POST whose \<^verbatim>\<open>email\<close> field is a non-empty string, the action
  returns with that string as the session's email, on every path, and hands the browser
  that session in its cookie. When the browser follows the redirect, the loader returns
  that string as the \<^verbatim>\<open>email\<close> of the page's data provided no user is signed in; when
  one is, the loader redirects to \<^verbatim>\<open>/me\<close> and returns no data, and what \<open>getUser\<close> throws
  escapes.
\<close>

theorem email_stored_before_validation:
  assumes "form_get (formData req) (js ''email'') = Some (FormString emailAddress)"
    and "emailAddress \<noteq> []"
  shows "\<exists>r. action w req = Inr r \<and> email (session r) = Some emailAddress \<and>
           set_cookie (resp r) = Some (session r) \<and>
           (case getUser w' (follow_redirect req (resp r)) of
              Inl e \<Rightarrow> loader w' (follow_redirect req (resp r)) = Inl e
            | Inr (Some user) \<Rightarrow>
                loader w' (follow_redirect req (resp r)) = Inr (LoaderRedirect (js ''/me''))
            | Inr None \<Rightarrow>
                (\<exists>err hs. loader w' (follow_redirect req (resp r)) =
                   Inr (LoaderJson \<lparr>data_email = Some emailAddress, data_error = err\<rparr> hs)))"
proof -
  have shape: "\<exists>r. action w req = Inr r \<and> email (session r) = Some emailAddress \<and>
      response_headers (resp r) = [(''Set-Cookie'', SessionCookie (session r))]"
    using assms action_send_shape [of w req emailAddress "setEmail emailAddress (getLoginInfoSession req)"]
    by (simp add: action_def session_ops split: sum.split verified_status.split prod.split)
  then obtain r where r: "action w req = Inr r" "email (session r) = Some emailAddress"
    "response_headers (resp r) = [(''Set-Cookie'', SessionCookie (session r))]" by blast
  then have c: "set_cookie (resp r) = Some (session r)" by (simp add: set_cookie_def)
  then have "getLoginInfoSession (follow_redirect req (resp r)) = session r"
    by (simp add: follow_redirect_def getLoginInfoSession_def)
  with r c show ?thesis
    by (simp add: loader_def getEmail_def Let_def split: sum.split option.split)
qed

text \<open>
  An instance of C10 as amended, on the path of the malformed email: \<^verbatim>\<open>not-an-email\<close>
  is refused with a 400 and is nevertheless what the loader returns next.
\<close>

theorem email_stored_before_validation_witness:
  "form_get (formData (post_login (js ''not-an-email'') [])) (js ''email'') =
     Some (FormString (js ''not-an-email'')) \<and>
   js ''not-an-email'' \<noteq> [] \<and>
   (\<exists>r. action example_world (post_login (js ''not-an-email'') []) = Inr r \<and>
        email (session r) = Some (js ''not-an-email'') \<and>
        set_cookie (resp r) = Some (session r) \<and>
        (\<exists>err hs. loader example_world
                     (follow_redirect (post_login (js ''not-an-email'') []) (resp r)) =
           Inr (LoaderJson \<lparr>data_email = Some (js ''not-an-email''), data_error = err\<rparr> hs)))"
proof -
  have h1: "form_get (formData (post_login (js ''not-an-email'') [])) (js ''email'') =
      Some (FormString (js ''not-an-email''))"
    by (simp add: post_login_def form_get_def)
  have h2: "js ''not-an-email'' \<noteq> []"
    by (simp add: js_def)
  have u: "\<And>q. getUser example_world q = Inr None"
    by (simp add: example_world_def)
  from email_stored_before_validation [OF h1 h2, of example_world example_world]
  have "\<exists>r. action example_world (post_login (js ''not-an-email'') []) = Inr r \<and>
        email (session r) = Some (js ''not-an-email'') \<and>
        set_cookie (resp r) = Some (session r) \<and>
        (\<exists>err hs. loader example_world
                     (follow_redirect (post_login (js ''not-an-email'') []) (resp r)) =
           Inr (LoaderJson \<lparr>data_email = Some (js ''not-an-email''), data_error = err\<rparr> hs))"
    by (simp add: u)
  with h1 h2 show ?thesis by blast
qed

text \<open>
  C10 as first stated fails: for a signed-in user the session's email is stored, and the
  loader that follows redirects to \<^verbatim>\<open>/me\<close> instead of returning it.
\<close>

theorem loader_signed_in_counterexample:
  "email (session (projr (action signed_in_world (post_login (js ''a@b.com'') [])))) =
     Some (js ''a@b.com'') \<and>
   loader signed_in_world
     (follow_redirect (post_login (js ''a@b.com'') [])
        (resp (projr (action signed_in_world (post_login (js ''a@b.com'') []))))) =
     Inr (LoaderRedirect (js ''/me''))"
  by (simp add: action_def action_send_def isEmailVerified_def session_ops post_login_def
      form_get_def getLoginInfoSession_def empty_session_def js_def at_sign_def dot_def
      is_line_terminator_def signed_in_world_def example_world_def loader_def)

end
